theory Spec2Isabelle
  imports Complex_Main
begin

section \<open>The panel group of react-resizable-panels\<close>

text \<open>
  The development embeds the component \<^verbatim>\<open>PanelGroup\<close>: the layout effect that
  computes the initial sizes, the effect that saves a layout, the registration of panels,
  the resize handler of a handle and the drag session.

  Numbers: a JavaScript \<^verbatim>\<open>number\<close> is an IEEE double. The finite doubles are reals, and
  a number is modelled as a \<^typ>\<open>real\<close>; the comparison of two doubles and the literals 0
  and 100 are exact. The sum, the difference and the quotient of two doubles are rounded,
  so in the computation of the initial sizes the three operations are not those of the
  reals but the parameter \<open>ops\<close>, and every theorem holds for each value of it, the
  operations of the doubles among them. NaN and overflow are not modelled; the one quotient
  whose divisor can be zero (the resize delta) is given the type \<open>number\<close> below, with
  the two infinities.
\<close>

subsection \<open>Panels and the panel map\<close>

datatype Direction = horizontal | vertical

text \<open>
  Modelled from the spec: the type \<^verbatim>\<open>PanelData\<close> is declared in \<^verbatim>\<open>./types\<close>, which is
  not among the sources. The fields are those of the PanelSpec of the data model; the
  group reads \<^verbatim>\<open>panel.defaultSize\<close> (a number or \<^verbatim>\<open>null\<close>) and \<^verbatim>\<open>panel.minSize\<close>.
\<close>

record PanelData =
  id_panel :: string
  order_panel :: "real option"
  defaultSize :: "real option"
  minSize :: real
  maxSize :: real
  collapsible :: bool

text \<open>
  A \<^verbatim>\<open>Map<string, PanelData>\<close> keeps its entries in insertion order with distinct keys:
  an association list.
\<close>

type_synonym PanelDataMap = "(string \<times> PanelData) list"

definition has :: "PanelDataMap \<Rightarrow> string \<Rightarrow> bool" where
  "has m k = (map_of m k \<noteq> None)"

definition set_entry :: "PanelDataMap \<Rightarrow> string \<Rightarrow> PanelData \<Rightarrow> PanelDataMap" where
  \<comment> \<open>\<^verbatim>\<open>Map.prototype.set\<close>: an existing key keeps its place, a new key goes last.\<close>
  "set_entry m k v =
     (if has m k then map (\<lambda>(k', v'). if k' = k then (k', v) else (k', v')) m
      else m @ [(k, v)])"

definition delete_entry :: "PanelDataMap \<Rightarrow> string \<Rightarrow> PanelDataMap" where
  "delete_entry m k = filter (\<lambda>(k', v'). k' \<noteq> k) m"

definition size_map :: "PanelDataMap \<Rightarrow> nat" where
  "size_map m = length m"

subsection \<open>The collaborators that are imported\<close>

text \<open>
  The functions the group imports from \<^verbatim>\<open>./utils\<close> are not among the sources. They read
  the document and the local storage. Each function of the model takes the ones it calls
  as its first arguments, under the names the source imports them by, and every theorem
  below holds for each value of them. \<open>'ev\<close> is the type of a resize event;
  \<open>getBoundingClientRect\<close> stands for \<^verbatim>\<open>getPanelGroup(groupId).getBoundingClientRect()\<close>
  and returns the width and the height.
\<close>

type_synonym sorter = "PanelDataMap \<Rightarrow> PanelData list"

type_synonym loader = "string \<Rightarrow> PanelData list \<Rightarrow> real list option"

type_synonym handle_ids = "string \<Rightarrow> string \<Rightarrow> PanelData list \<Rightarrow> string option \<times> string option"

type_synonym 'ev movement = "'ev \<Rightarrow> string \<Rightarrow> string \<Rightarrow> Direction \<Rightarrow> real \<Rightarrow> real"

type_synonym 'ev drag_offset = "'ev \<Rightarrow> string \<Rightarrow> Direction \<Rightarrow> real"

type_synonym bounding_rect = "string \<Rightarrow> real \<times> real"

subsection \<open>The initial sizes\<close>

datatype config_error =
    DefaultSizeExceeds100
      \<comment> \<open>"The sum of the defaultSize of all panels in a group cannot exceed 100."\<close>
  | MinSizeExceeds100
      \<comment> \<open>"The sum of the minSize of all panels in a group cannot exceed 100."\<close>

text \<open>
  The variable \<^verbatim>\<open>defaultSizes\<close> of the layout effect: the layout restored from the
  storage. \<^verbatim>\<open>if (autoSaveId)\<close> is false for \<^verbatim>\<open>undefined\<close> and for the empty string.
\<close>

definition defaultSizes ::
    "sorter \<Rightarrow> loader \<Rightarrow> string option \<Rightarrow> PanelDataMap \<Rightarrow> real list option" where
  "defaultSizes panelsMapToSortedArray loadPanelLayout autoSaveId panels =
     (case autoSaveId of
        None \<Rightarrow> None
      | Some a \<Rightarrow>
          if a = [] then None
          else loadPanelLayout a (panelsMapToSortedArray panels))"

text \<open>
  The operations \<^verbatim>\<open>+\<close>, \<^verbatim>\<open>-\<close> and \<^verbatim>\<open>/\<close> of the language on doubles.
\<close>

record arith =
  js_add :: "real \<Rightarrow> real \<Rightarrow> real"
  js_sub :: "real \<Rightarrow> real \<Rightarrow> real"
  js_div :: "real \<Rightarrow> real \<Rightarrow> real"

text \<open>
  The \<^verbatim>\<open>forEach\<close> over the sorted panels, with its three counters
  \<^verbatim>\<open>panelsWithNullDefaultSize\<close>, \<^verbatim>\<open>totalDefaultSize\<close> and \<^verbatim>\<open>totalMinSize\<close>. The first
  counts in steps of one from zero, which is exact, and is a natural number.
\<close>

fun forEach_panel ::
    "arith \<Rightarrow> PanelData list \<Rightarrow> nat \<times> real \<times> real \<Rightarrow> nat \<times> real \<times> real" where
  "forEach_panel ops [] acc = acc"
| "forEach_panel ops (panel # rest)
       (panelsWithNullDefaultSize, totalDefaultSize, totalMinSize) =
     (case defaultSize panel of
        None \<Rightarrow>
          forEach_panel ops rest
            (panelsWithNullDefaultSize + 1, totalDefaultSize,
             js_add ops totalMinSize (minSize panel))
      | Some d \<Rightarrow>
          forEach_panel ops rest
            (panelsWithNullDefaultSize, js_add ops totalDefaultSize d,
             js_add ops totalMinSize (minSize panel)))"

text \<open>
  The layout effect that computes the initial sizes. It reads the committed sizes and the
  panels. The result is the error thrown (\<open>Inl\<close>), or the call of \<^verbatim>\<open>setSizes\<close> it makes:
  \<open>Inr None\<close> when it returns without a call, \<open>Inr (Some v)\<close> for \<^verbatim>\<open>setSizes(v)\<close>.
\<close>

definition initialSizes ::
    "arith \<Rightarrow> sorter \<Rightarrow> loader \<Rightarrow> string option \<Rightarrow> PanelDataMap \<Rightarrow> real list
       \<Rightarrow> config_error + real list option" where
  "initialSizes ops panelsMapToSortedArray loadPanelLayout autoSaveId panels sizes =
     (if length sizes = size_map panels then Inr None
      else
        case defaultSizes panelsMapToSortedArray loadPanelLayout autoSaveId panels of
          Some restored \<Rightarrow> Inr (Some restored)
        | None \<Rightarrow>
            let panelsArray = panelsMapToSortedArray panels;
                (panelsWithNullDefaultSize, totalDefaultSize, totalMinSize) =
                   forEach_panel ops panelsArray (0, 0, 0)
            in
              if totalDefaultSize > 100 then Inl DefaultSizeExceeds100
              else if totalMinSize > 100 then Inl MinSizeExceeds100
              else
                Inr (Some (map (\<lambda>panel.
                  case defaultSize panel of
                    None \<Rightarrow>
                      js_div ops (js_sub ops 100 totalDefaultSize)
                        (real panelsWithNullDefaultSize)
                  | Some d \<Rightarrow> d) panelsArray)))"

text \<open>
  The effect that saves the layout. The result is the call of \<^verbatim>\<open>savePanelGroupLayout\<close>
  it makes, with its three arguments, or \<open>None\<close> when it makes none.
\<close>

definition saveEffect ::
    "sorter \<Rightarrow> string option \<Rightarrow> PanelDataMap \<Rightarrow> real list
       \<Rightarrow> (string \<times> PanelData list \<times> real list) option" where
  "saveEffect panelsMapToSortedArray autoSaveId panels sizes =
     (case autoSaveId of
        None \<Rightarrow> None
      | Some a \<Rightarrow>
          if a = [] then None
          else if length sizes = 0 \<or> length sizes \<noteq> size_map panels then None
          else Some (a, panelsMapToSortedArray panels, sizes))"

text \<open>
  The quantities of the specification, as a program in doubles computes them: the sum of
  the explicit default sizes and the sum of the minimum sizes, each from 0 by one addition
  for each panel in the order of the sorted panels, and the number of panels without an
  explicit default size.
\<close>

definition explicitDefaults :: "PanelData list \<Rightarrow> real list" where
  "explicitDefaults ps = List.map_filter defaultSize ps"

definition totalDefault :: "arith \<Rightarrow> PanelData list \<Rightarrow> real" where
  "totalDefault ops ps = foldl (js_add ops) 0 (explicitDefaults ps)"

definition nullCount :: "PanelData list \<Rightarrow> nat" where
  "nullCount ps = length (filter (\<lambda>p. defaultSize p = None) ps)"

definition totalMin :: "arith \<Rightarrow> PanelData list \<Rightarrow> real" where
  "totalMin ops ps = foldl (js_add ops) 0 (map minSize ps)"

text \<open>
  The size of a panel in the distribution of the defaults: its explicit default size, or
  \<open>(100 - totalDefault) / nullCount\<close>, the difference and the quotient being those of the
  language.
\<close>

definition defaultShare :: "arith \<Rightarrow> PanelData list \<Rightarrow> PanelData \<Rightarrow> real" where
  "defaultShare ops ps p =
     (case defaultSize p of
        Some d \<Rightarrow> d
      | None \<Rightarrow> js_div ops (js_sub ops 100 (totalDefault ops ps)) (real (nullCount ps)))"

subsection \<open>The state of a group\<close>

text \<open>
  Maps and arrays are objects: two of them can hold the same entries and still be
  different objects, and the group compares them by identity (\<^verbatim>\<open>prevSizes !== nextSizes\<close>,
  and the state setters of the framework). So an object is a reference into a heap, and
  a new object takes the next unused reference.
\<close>

type_synonym ref = nat

record heap =
  mapCells :: "ref \<Rightarrow> PanelDataMap"
  arrayCells :: "ref \<Rightarrow> real list"
  fresh :: ref

definition new_Map :: "PanelDataMap \<Rightarrow> heap \<Rightarrow> ref \<times> heap" where
  \<comment> \<open>\<^verbatim>\<open>new Map(entries)\<close>\<close>
  "new_Map m h = (fresh h, h\<lparr>mapCells := (mapCells h)(fresh h := m), fresh := Suc (fresh h)\<rparr>)"

definition new_Array :: "real list \<Rightarrow> heap \<Rightarrow> ref \<times> heap" where
  "new_Array xs h =
     (fresh h, h\<lparr>arrayCells := (arrayCells h)(fresh h := xs), fresh := Suc (fresh h)\<rparr>)"

text \<open>
  The properties \<^verbatim>\<open>autoSaveId\<close> and \<^verbatim>\<open>direction\<close>, the identifier of the group, the
  three states \<^verbatim>\<open>activeHandleId\<close>, \<^verbatim>\<open>panels\<close> and \<^verbatim>\<open>sizes\<close>, and
  \<^verbatim>\<open>dragOffsetRef.current\<close>. A state setter takes effect at once: the model has no
  pending render, so \<^verbatim>\<open>committedValuesRef.current\<close>, which the first layout effect
  copies from \<open>direction\<close>, \<open>panels\<close> and \<open>sizes\<close> after every render, is these fields.
\<close>

record group =
  autoSaveId :: "string option"
  direction :: Direction
  groupId :: string
  activeHandleId :: "string option"
  panels :: ref
  sizes :: ref
  dragOffset :: real
  mem :: heap

definition setPanels :: "(ref \<Rightarrow> heap \<Rightarrow> ref \<times> heap) \<Rightarrow> group \<Rightarrow> group" where
  \<comment> \<open>\<^verbatim>\<open>setPanels((prevPanels) => ...)\<close>: the new state is what the function returns.\<close>
  "setPanels update g = (let (r, h) = update (panels g) (mem g) in g\<lparr>panels := r, mem := h\<rparr>)"

definition registerPanel :: "string \<Rightarrow> PanelData \<Rightarrow> group \<Rightarrow> group" where
  "registerPanel panelId panel =
     setPanels (\<lambda>prevPanels h.
       if has (mapCells h prevPanels) panelId then (prevPanels, h)
       else
         let (nextPanels, h1) = new_Map (mapCells h prevPanels) h
         in (nextPanels,
             h1\<lparr>mapCells :=
                  (mapCells h1)(nextPanels := set_entry (mapCells h1 nextPanels) panelId panel)\<rparr>))"

definition unregisterPanel :: "string \<Rightarrow> group \<Rightarrow> group" where
  "unregisterPanel panelId =
     setPanels (\<lambda>prevPanels h.
       if \<not> has (mapCells h prevPanels) panelId then (prevPanels, h)
       else
         let (nextPanels, h1) = new_Map (mapCells h prevPanels) h
         in (nextPanels,
             h1\<lparr>mapCells :=
                  (mapCells h1)(nextPanels := delete_entry (mapCells h1 nextPanels) panelId)\<rparr>))"

definition startDragging :: "'ev drag_offset \<Rightarrow> string \<Rightarrow> 'ev \<Rightarrow> group \<Rightarrow> group" where
  "startDragging getDragOffset handleId event g =
     g\<lparr>activeHandleId := Some handleId,
       dragOffset := getDragOffset event handleId (direction g)\<rparr>"

definition stopDragging :: "group \<Rightarrow> group" where
  "stopDragging g = g\<lparr>activeHandleId := None\<rparr>"

text \<open>The map and the array that the states \<open>panels\<close> and \<open>sizes\<close> of a group refer to.\<close>

definition panelsOf :: "group \<Rightarrow> PanelDataMap" where
  "panelsOf g = mapCells (mem g) (panels g)"

definition sizesOf :: "group \<Rightarrow> real list" where
  "sizesOf g = arrayCells (mem g) (sizes g)"

text \<open>
  A call of \<^verbatim>\<open>setSizes\<close>, or none, applied to the group together with the heap the
  caller has left.
\<close>

definition commit :: "ref option \<times> heap \<Rightarrow> group \<Rightarrow> group" where
  "commit call g =
     (case call of
        (None, h) \<Rightarrow> g\<lparr>mem := h\<rparr>
      | (Some nextSizes, h) \<Rightarrow> g\<lparr>sizes := nextSizes, mem := h\<rparr>)"

text \<open>
  The layout effect of the initial sizes on a group: it reads the panels and the sizes of
  the group, and the array it passes to \<^verbatim>\<open>setSizes\<close> is a new object.
\<close>

definition initialSizesEffect ::
    "arith \<Rightarrow> sorter \<Rightarrow> loader \<Rightarrow> group \<Rightarrow> config_error + group" where
  "initialSizesEffect ops panelsMapToSortedArray loadPanelLayout g =
     (case initialSizes ops panelsMapToSortedArray loadPanelLayout (autoSaveId g)
             (mapCells (mem g) (panels g)) (arrayCells (mem g) (sizes g)) of
        Inl e \<Rightarrow> Inl e
      | Inr None \<Rightarrow> Inr g
      | Inr (Some v) \<Rightarrow>
          (let (r, h) = new_Array v (mem g) in Inr (commit (Some r, h) g)))"

subsection \<open>The resize handler\<close>

text \<open>
  The delta of a resize is \<^verbatim>\<open>(movement / size) * 100\<close>, computed when the movement is not
  zero; \<open>extent\<close> is the \<^verbatim>\<open>size\<close> of the source, the width or the height of the group. It
  can be zero, and then the quotient of IEEE doubles is an infinity with the sign of the
  movement.
\<close>

datatype number = Finite real | PosInfinity | NegInfinity

definition percent :: "real \<Rightarrow> real \<Rightarrow> number" where
  "percent movement extent =
     (if extent = 0 then (if movement > 0 then PosInfinity else NegInfinity)
      else Finite (movement / extent * 100))"

type_synonym adjuster = "heap \<Rightarrow> ref \<Rightarrow> string \<Rightarrow> string \<Rightarrow> number \<Rightarrow> ref \<Rightarrow> ref \<times> heap"

text \<open>
  The handler that \<^verbatim>\<open>registerResizeHandle(handleId)\<close> returns. \<open>adjust\<close> is the imported
  \<^verbatim>\<open>adjustByDelta\<close>: it is given the panels, the two identifiers, the delta and the previous
  sizes, and returns an array, which can be a new object. The result is the call of
  \<^verbatim>\<open>setSizes\<close> the handler makes, if any, and the heap it leaves. The handler first calls
  \<^verbatim>\<open>event.preventDefault()\<close>, which touches the event only.
\<close>

definition resizeHandler ::
    "sorter \<Rightarrow> handle_ids \<Rightarrow> 'ev movement \<Rightarrow> bounding_rect \<Rightarrow> adjuster
       \<Rightarrow> string \<Rightarrow> 'ev \<Rightarrow> group \<Rightarrow> ref option \<times> heap" where
  "resizeHandler panelsMapToSortedArray getResizeHandlePanelIds getMovement
       getBoundingClientRect adjust handleId event g =
     (let prevSizes = sizes g;
          panelsArray = panelsMapToSortedArray (mapCells (mem g) (panels g))
      in
        case getResizeHandlePanelIds (groupId g) handleId panelsArray of
          (Some idBefore, Some idAfter) \<Rightarrow>
            let movement = getMovement event (groupId g) handleId (direction g) (dragOffset g)
            in
              if movement = 0 then (None, mem g)
              else
                let (width, height) = getBoundingClientRect (groupId g);
                    extent = (if direction g = horizontal then width else height);
                    delta = percent movement extent;
                    (nextSizes, h) = adjust (mem g) (panels g) idBefore idAfter delta prevSizes
                in if prevSizes \<noteq> nextSizes then (Some nextSizes, h) else (None, h)
        | _ \<Rightarrow> (None, mem g))"

text \<open>
  Modelled from the spec: \<^verbatim>\<open>adjustByDelta\<close> is defined in \<^verbatim>\<open>./utils/group\<close>, which is not
  among the sources. The specification of the delta distribution (4.2) says how the
  effective delta is resolved (clamped to the bounds of the panels, cascaded past a
  saturated panel, a collapsible panel snapped to zero) and then: "If the resolved
  effective delta is exactly zero, the function returns the same input sequence by
  identity (not a new equal-valued copy)". The resolution is the argument \<open>resolve\<close>, which
  returns the effective delta and the sizes after it; a result that differs is a new
  array.
\<close>

type_synonym resolver =
  "PanelDataMap \<Rightarrow> string \<Rightarrow> string \<Rightarrow> number \<Rightarrow> real list \<Rightarrow> real \<times> real list"

definition adjustByDelta :: "resolver \<Rightarrow> adjuster" where
  "adjustByDelta resolve h panelsRef idBefore idAfter delta prevSizes =
     (let (effective, nextSizes) =
            resolve (mapCells h panelsRef) idBefore idAfter delta (arrayCells h prevSizes)
      in if effective = 0 then (prevSizes, h) else new_Array nextSizes h)"

subsection \<open>Example panels\<close>

text \<open>
  The inputs of the examples below: a panel that is not collapsible and has no explicit
  order, given by its identifier, default size, minimum and maximum; panels sorted in the
  order of their registration; and a storage that holds no layout. \<open>exact\<close> is the
  arithmetic of the reals. Where an example uses it, every sum, difference and quotient
  is an integer, which a double holds exactly, so that the operations of the doubles give
  the same numbers; the quotient \<open>100 / 3\<close> is the exception, and the double
  nearest to it is less than a thousandth away.
\<close>

definition panelOf :: "string \<Rightarrow> real option \<Rightarrow> real \<Rightarrow> real \<Rightarrow> PanelData" where
  "panelOf i d lo hi =
     \<lparr>id_panel = i, order_panel = None, defaultSize = d, minSize = lo, maxSize = hi,
      collapsible = False\<rparr>"

definition exact :: arith where
  "exact = \<lparr>js_add = (\<lambda>x y. x + y), js_sub = (\<lambda>x y. x - y), js_div = (\<lambda>x y. x / y)\<rparr>"

definition registrationOrder :: sorter where
  "registrationOrder m = map snd m"

definition emptyStorage :: loader where
  "emptyStorage a ps = None"

text \<open>
  A group in its first render after the registrations: no \<^verbatim>\<open>autoSaveId\<close>, horizontal, no
  active handle, the map of its panels at reference 0 and the array of its sizes at
  reference 1.
\<close>

definition groupOf :: "PanelDataMap \<Rightarrow> real list \<Rightarrow> group" where
  "groupOf m xs =
     \<lparr>autoSaveId = None, direction = horizontal, groupId = ''group'', activeHandleId = None,
      panels = 0, sizes = 1, dragOffset = 0,
      mem = \<lparr>mapCells = (\<lambda>r. [])(0 := m), arrayCells = (\<lambda>r. [])(1 := xs), fresh = 2\<rparr>\<rparr>"

text \<open>A document in which a handle is always grabbed at the offset \<open>x\<close>.\<close>

definition grabbedAt :: "real \<Rightarrow> 'ev drag_offset" where
  "grabbedAt x event handleId d = x"

section \<open>Properties\<close>

lemma forEach_panel_totals:
  "forEach_panel ops ps (n, d, m) =
     (n + nullCount ps,
      foldl (js_add ops) d (explicitDefaults ps),
      foldl (js_add ops) m (map minSize ps))"
proof (induction ps arbitrary: n d m)
  case Nil
  show ?case
    by (simp add: nullCount_def explicitDefaults_def List.map_filter_simps)
next
  case (Cons p ps)
  show ?case
  proof (cases "defaultSize p")
    case None
    then show ?thesis
      using Cons.IH [of "n + 1" d "js_add ops m (minSize p)"]
      by (simp add: nullCount_def explicitDefaults_def List.map_filter_simps)
  next
    case (Some x)
    then show ?thesis
      using Cons.IH [of n "js_add ops d x" "js_add ops m (minSize p)"]
      by (simp add: nullCount_def explicitDefaults_def List.map_filter_simps)
  qed
qed

lemma forEach_panel_start:
  "forEach_panel ops ps (0, 0, 0) = (nullCount ps, totalDefault ops ps, totalMin ops ps)"
  using forEach_panel_totals [of ops ps 0 0 0]
  by (simp add: totalDefault_def totalMin_def)

lemma initialSizes_defaults:
  assumes "length committed \<noteq> size_map panelMap"
    and "defaultSizes toArray load saveId panelMap = None"
  shows "initialSizes ops toArray load saveId panelMap committed =
     (if totalDefault ops (toArray panelMap) > 100 then Inl DefaultSizeExceeds100
      else if totalMin ops (toArray panelMap) > 100 then Inl MinSizeExceeds100
      else Inr (Some (map (defaultShare ops (toArray panelMap)) (toArray panelMap))))"
proof -
  have share: "(\<lambda>panel. case defaultSize panel of
        None \<Rightarrow>
          js_div ops (js_sub ops 100 (totalDefault ops (toArray panelMap)))
            (real (nullCount (toArray panelMap)))
      | Some d \<Rightarrow> d) = defaultShare ops (toArray panelMap)"
    by (rule ext) (simp add: defaultShare_def split: option.splits)
  show ?thesis
    using assms
    by (simp add: initialSizes_def forEach_panel_start Let_def share)
qed

lemma panelOf_fields:
  "defaultSize (panelOf i d lo hi) = d"
  "minSize (panelOf i d lo hi) = lo"
  "maxSize (panelOf i d lo hi) = hi"
  by (simp_all add: panelOf_def)

text \<open>The sums of the examples, for an arithmetic that is exact where doubles are.\<close>

lemma totals_three_unset:
  assumes "js_add ops 0 0 = 0"
  shows "totalDefault ops
       [panelOf ''a'' None 0 100, panelOf ''b'' None 0 100, panelOf ''c'' None 0 100] = 0"
    and "totalMin ops
       [panelOf ''a'' None 0 100, panelOf ''b'' None 0 100, panelOf ''c'' None 0 100] = 0"
  using assms
  by (simp_all add: totalDefault_def totalMin_def explicitDefaults_def
        List.map_filter_simps panelOf_fields)

lemma totals_seventy_unset:
  assumes "js_add ops 0 0 = 0" and "js_add ops 0 70 = 70"
  shows "totalDefault ops [panelOf ''a'' (Some 70) 0 100, panelOf ''b'' None 0 100] = 70"
    and "totalMin ops [panelOf ''a'' (Some 70) 0 100, panelOf ''b'' None 0 100] = 0"
  using assms
  by (simp_all add: totalDefault_def totalMin_def explicitDefaults_def
        List.map_filter_simps panelOf_fields)

lemma counts_unset:
  "nullCount [panelOf ''a'' None 0 100, panelOf ''b'' None 0 100, panelOf ''c'' None 0 100] = 3"
  "nullCount [panelOf ''a'' (Some 70) 0 100, panelOf ''b'' None 0 100] = 1"
  by (simp_all add: nullCount_def panelOf_fields)

lemma total_sixty_fifty:
  assumes "js_add ops 0 60 = 60" and "js_add ops 60 50 = 110"
  shows "totalDefault ops [panelOf ''a'' (Some 60) 0 100, panelOf ''b'' (Some 50) 0 100] = 110"
  using assms
  by (simp add: totalDefault_def explicitDefaults_def List.map_filter_simps panelOf_fields)

subsection \<open>The initial sizes\<close>

text \<open>
  C1. In the computation of the initial sizes, when the effect runs, no persisted layout
  is adopted and neither sum exceeds 100, the effect sets the sizes, and they are those
  of the sorted panels in their order: a panel with an explicit default size receives
  that value, and a panel without one receives \<open>(100 - totalDefault) / nullCount\<close>, where
  \<open>totalDefault\<close> is the sum of the explicit default sizes and \<open>nullCount\<close> the number
  of panels without one. The sum, the difference and the quotient are those the program
  computes, for every arithmetic. The two examples hold for every arithmetic that is exact
  where doubles are: three panels without a default size and with the minimum 0 receive
  the quotient of 100 and 3 each, which is 33.33 within a hundredth when the quotient is
  within a thousandth of \<open>100 / 3\<close>; and of two panels, one with the default size 70,
  the other receives 30.
\<close>

theorem default_size_distribution:
  "(length committed \<noteq> size_map panelMap \<and>
    defaultSizes toArray load saveId panelMap = None \<and>
    totalDefault ops (toArray panelMap) \<le> 100 \<and>
    totalMin ops (toArray panelMap) \<le> 100 \<longrightarrow>
      initialSizes ops toArray load saveId panelMap committed =
        Inr (Some (map (defaultShare ops (toArray panelMap)) (toArray panelMap))) \<and>
      (\<forall>p d. defaultSize p = Some d \<longrightarrow> defaultShare ops (toArray panelMap) p = d) \<and>
      (\<forall>p. defaultSize p = None \<longrightarrow>
         defaultShare ops (toArray panelMap) p =
           js_div ops (js_sub ops 100 (totalDefault ops (toArray panelMap)))
             (real (nullCount (toArray panelMap))))) \<and>
   (js_add ops 0 0 = 0 \<and> js_sub ops 100 0 = 100 \<and> \<bar>js_div ops 100 3 - 100 / 3\<bar> \<le> 1 / 1000 \<longrightarrow>
      initialSizes ops registrationOrder emptyStorage None
        [(''a'', panelOf ''a'' None 0 100), (''b'', panelOf ''b'' None 0 100),
         (''c'', panelOf ''c'' None 0 100)] []
        = Inr (Some [js_div ops 100 3, js_div ops 100 3, js_div ops 100 3]) \<and>
      \<bar>js_div ops 100 3 - 3333 / 100\<bar> < 1 / 100) \<and>
   (js_add ops 0 0 = 0 \<and> js_add ops 0 70 = 70 \<and> js_sub ops 100 70 = 30 \<and>
    js_div ops 30 1 = 30 \<longrightarrow>
      initialSizes ops registrationOrder emptyStorage None
        [(''a'', panelOf ''a'' (Some 70) 0 100), (''b'', panelOf ''b'' None 0 100)] []
        = Inr (Some [70, 30]))"
proof (intro conjI impI)
  assume run: "length committed \<noteq> size_map panelMap \<and>
    defaultSizes toArray load saveId panelMap = None \<and>
    totalDefault ops (toArray panelMap) \<le> 100 \<and>
    totalMin ops (toArray panelMap) \<le> 100"
  then show "initialSizes ops toArray load saveId panelMap committed =
        Inr (Some (map (defaultShare ops (toArray panelMap)) (toArray panelMap)))"
    using initialSizes_defaults [of committed panelMap toArray load saveId ops]
    by simp
  show "\<forall>p d. defaultSize p = Some d \<longrightarrow> defaultShare ops (toArray panelMap) p = d"
    by (simp add: defaultShare_def)
  show "\<forall>p. defaultSize p = None \<longrightarrow>
         defaultShare ops (toArray panelMap) p =
           js_div ops (js_sub ops 100 (totalDefault ops (toArray panelMap)))
             (real (nullCount (toArray panelMap)))"
    by (simp add: defaultShare_def)
next
  let ?m = "[(''a'', panelOf ''a'' None 0 100), (''b'', panelOf ''b'' None 0 100),
         (''c'', panelOf ''c'' None 0 100)]"
  assume near: "js_add ops 0 0 = 0 \<and> js_sub ops 100 0 = 100 \<and>
    \<bar>js_div ops 100 3 - 100 / 3\<bar> \<le> 1 / 1000"
  have run: "length ([] :: real list) \<noteq> size_map ?m"
    by (simp add: size_map_def)
  have none: "defaultSizes registrationOrder emptyStorage None ?m = None"
    by (simp add: defaultSizes_def)
  have arr: "registrationOrder ?m =
      [panelOf ''a'' None 0 100, panelOf ''b'' None 0 100, panelOf ''c'' None 0 100]"
    by (simp add: registrationOrder_def)
  from near have zero: "js_add ops 0 0 = 0"
    by simp
  show "initialSizes ops registrationOrder emptyStorage None ?m []
      = Inr (Some [js_div ops 100 3, js_div ops 100 3, js_div ops 100 3])"
    using near
    by (simp add: initialSizes_defaults [OF run none] arr totals_three_unset [OF zero]
          counts_unset defaultShare_def panelOf_fields)
  from near have "\<bar>js_div ops 100 3 - 100 / 3\<bar> \<le> 1 / 1000"
    by blast
  then show "\<bar>js_div ops 100 3 - 3333 / 100\<bar> < 1 / 100"
    by linarith
next
  let ?m = "[(''a'', panelOf ''a'' (Some 70) 0 100), (''b'', panelOf ''b'' None 0 100)]"
  assume exactly: "js_add ops 0 0 = 0 \<and> js_add ops 0 70 = 70 \<and> js_sub ops 100 70 = 30 \<and>
    js_div ops 30 1 = 30"
  have run: "length ([] :: real list) \<noteq> size_map ?m"
    by (simp add: size_map_def)
  have none: "defaultSizes registrationOrder emptyStorage None ?m = None"
    by (simp add: defaultSizes_def)
  have arr: "registrationOrder ?m = [panelOf ''a'' (Some 70) 0 100, panelOf ''b'' None 0 100]"
    by (simp add: registrationOrder_def)
  from exactly have zero: "js_add ops 0 0 = 0" and seventy: "js_add ops 0 70 = 70"
    by simp_all
  show "initialSizes ops registrationOrder emptyStorage None ?m [] = Inr (Some [70, 30])"
    using exactly
    by (simp add: initialSizes_defaults [OF run none] arr
          totals_seventy_unset [OF zero seventy] counts_unset defaultShare_def panelOf_fields)
qed


lemma exact_ops:
  "js_add exact x y = x + y"
  "js_sub exact x y = x - y"
  "js_div exact x y = x / y"
  by (simp_all add: exact_def)

text \<open>With the operations of the reals the two sums are the sums of the lists.\<close>

lemma foldl_exact: "foldl (js_add exact) a xs = a + sum_list xs"
  by (induction xs arbitrary: a) (simp_all add: exact_ops)

lemma totals_exact:
  "totalDefault exact ps = sum_list (explicitDefaults ps)"
  "totalMin exact ps = sum_list (map minSize ps)"
  by (simp_all add: totalDefault_def totalMin_def foldl_exact)

theorem default_size_distribution_witness:
  "length ([] :: real list) \<noteq>
     size_map [(''a'', panelOf ''a'' (Some 70) 0 100), (''b'', panelOf ''b'' None 0 100)] \<and>
   totalDefault exact (registrationOrder
     [(''a'', panelOf ''a'' (Some 70) 0 100), (''b'', panelOf ''b'' None 0 100)]) = 70 \<and>
   totalMin exact (registrationOrder
     [(''a'', panelOf ''a'' (Some 70) 0 100), (''b'', panelOf ''b'' None 0 100)]) = 0 \<and>
   initialSizes exact registrationOrder emptyStorage None
     [(''a'', panelOf ''a'' (Some 70) 0 100), (''b'', panelOf ''b'' None 0 100)] []
     = Inr (Some [70, 30]) \<and>
   initialSizes exact registrationOrder emptyStorage None
     [(''a'', panelOf ''a'' None 0 100), (''b'', panelOf ''b'' None 0 100),
      (''c'', panelOf ''c'' None 0 100)] []
     = Inr (Some [100 / 3, 100 / 3, 100 / 3]) \<and>
   \<bar>js_div exact 100 3 - 3333 / 100\<bar> < 1 / 100"
proof -
  let ?two = "[(''a'', panelOf ''a'' (Some 70) 0 100), (''b'', panelOf ''b'' None 0 100)]"
  let ?three = "[(''a'', panelOf ''a'' None 0 100), (''b'', panelOf ''b'' None 0 100),
      (''c'', panelOf ''c'' None 0 100)]"
  note all = default_size_distribution [of "[]" ?two registrationOrder emptyStorage None exact]
  have run: "length ([] :: real list) \<noteq> size_map ?two"
    by (simp add: size_map_def)
  have none: "defaultSizes registrationOrder emptyStorage None ?two = None"
    by (simp add: defaultSizes_def)
  have arr: "registrationOrder ?two = [panelOf ''a'' (Some 70) 0 100, panelOf ''b'' None 0 100]"
    by (simp add: registrationOrder_def)
  have sums: "totalDefault exact (registrationOrder ?two) = 70"
    "totalMin exact (registrationOrder ?two) = 0"
    by (simp_all add: arr totals_seventy_unset exact_ops)
  from all run none sums
  have "initialSizes exact registrationOrder emptyStorage None ?two [] =
      Inr (Some (map (defaultShare exact (registrationOrder ?two)) (registrationOrder ?two)))"
    by simp
  then have two: "initialSizes exact registrationOrder emptyStorage None ?two []
      = Inr (Some [70, 30])"
    by (simp add: arr defaultShare_def totals_seventy_unset counts_unset exact_ops
          panelOf_fields)
  from all
  have three: "initialSizes exact registrationOrder emptyStorage None ?three []
        = Inr (Some [100 / 3, 100 / 3, 100 / 3])"
    and near: "\<bar>js_div exact 100 3 - 3333 / 100\<bar> < 1 / 100"
    by (simp_all add: exact_ops)
  from run sums two three near show ?thesis
    by blast
qed

text \<open>
  C2. When the initial sizes are computed from the default sizes (the effect runs and no
  persisted layout is adopted) and the sum of the explicit default sizes or the sum of
  the minimum sizes, as the program computes it, exceeds 100, the effect throws: its
  result is the error, so no call of \<^verbatim>\<open>setSizes\<close> has been made. The sum of the default
  sizes is tested first. The example is the group of two panels with the default sizes 60
  and 50, for every arithmetic in which 0 and 60 make 60, and 60 and 50 make 110.
\<close>

theorem configuration_fail_fast:
  assumes "length committed \<noteq> size_map panelMap"
    and "defaultSizes toArray load saveId panelMap = None"
    and "totalDefault ops (toArray panelMap) > 100 \<or> totalMin ops (toArray panelMap) > 100"
  shows "initialSizes ops toArray load saveId panelMap committed =
       Inl (if totalDefault ops (toArray panelMap) > 100 then DefaultSizeExceeds100
            else MinSizeExceeds100) \<and>
     (js_add ops 0 60 = 60 \<and> js_add ops 60 50 = 110 \<longrightarrow>
        initialSizes ops registrationOrder emptyStorage None
          [(''a'', panelOf ''a'' (Some 60) 0 100), (''b'', panelOf ''b'' (Some 50) 0 100)] []
          = Inl DefaultSizeExceeds100)"
proof (intro conjI impI)
  show "initialSizes ops toArray load saveId panelMap committed =
       Inl (if totalDefault ops (toArray panelMap) > 100 then DefaultSizeExceeds100
            else MinSizeExceeds100)"
    using initialSizes_defaults [OF assms(1,2), of ops] assms(3)
    by auto
next
  let ?m = "[(''a'', panelOf ''a'' (Some 60) 0 100), (''b'', panelOf ''b'' (Some 50) 0 100)]"
  assume sums: "js_add ops 0 60 = 60 \<and> js_add ops 60 50 = 110"
  have run: "length ([] :: real list) \<noteq> size_map ?m"
    by (simp add: size_map_def)
  have none: "defaultSizes registrationOrder emptyStorage None ?m = None"
    by (simp add: defaultSizes_def)
  have "totalDefault ops (registrationOrder ?m) = 110"
    using sums by (simp add: registrationOrder_def total_sixty_fifty)
  then show "initialSizes ops registrationOrder emptyStorage None ?m []
      = Inl DefaultSizeExceeds100"
    by (simp add: initialSizes_defaults [OF run none])
qed

theorem configuration_fail_fast_witness:
  "length ([] :: real list) \<noteq>
     size_map [(''a'', panelOf ''a'' (Some 60) 0 100), (''b'', panelOf ''b'' (Some 50) 0 100)] \<and>
   totalDefault exact (registrationOrder
     [(''a'', panelOf ''a'' (Some 60) 0 100), (''b'', panelOf ''b'' (Some 50) 0 100)]) = 110 \<and>
   initialSizes exact registrationOrder emptyStorage None
     [(''a'', panelOf ''a'' (Some 60) 0 100), (''b'', panelOf ''b'' (Some 50) 0 100)] []
     = Inl DefaultSizeExceeds100"
proof -
  let ?m = "[(''a'', panelOf ''a'' (Some 60) 0 100), (''b'', panelOf ''b'' (Some 50) 0 100)]"
  have run: "length ([] :: real list) \<noteq> size_map ?m"
    by (simp add: size_map_def)
  have none: "defaultSizes registrationOrder emptyStorage None ?m = None"
    by (simp add: defaultSizes_def)
  have total: "totalDefault exact (registrationOrder ?m) = 110"
    by (simp add: registrationOrder_def total_sixty_fifty exact_ops)
  then have over: "totalDefault exact (registrationOrder ?m) > 100
      \<or> totalMin exact (registrationOrder ?m) > 100"
    by simp
  from configuration_fail_fast [OF run none over] total
  have "initialSizes exact registrationOrder emptyStorage None ?m [] = Inl DefaultSizeExceeds100"
    by simp
  with run total show ?thesis by blast
qed




text \<open>
  C6. When the effect runs, \<^verbatim>\<open>autoSaveId\<close> is a string that is not empty and the saved
  layout loads for the sorted panels, the effect sets the loaded sizes and nothing else:
  the default sizes are not summed and not tested. In the witness the default sizes are
  60 and 50, which would be an error, and the loaded layout is adopted.
\<close>

theorem persisted_layout_adopted:
  assumes "length committed \<noteq> size_map panelMap"
    and "saveId = Some a" and "a \<noteq> []"
    and "load a (toArray panelMap) = Some restored"
  shows "initialSizes ops toArray load saveId panelMap committed = Inr (Some restored)"
  using assms by (simp add: initialSizes_def defaultSizes_def)

theorem persisted_layout_adopted_witness:
  "length ([] :: real list) \<noteq>
     size_map [(''a'', panelOf ''a'' (Some 60) 0 100), (''b'', panelOf ''b'' (Some 50) 0 100)] \<and>
   ''layout'' \<noteq> [] \<and>
   totalDefault exact (registrationOrder
     [(''a'', panelOf ''a'' (Some 60) 0 100), (''b'', panelOf ''b'' (Some 50) 0 100)]) > 100 \<and>
   initialSizes exact registrationOrder (\<lambda>a ps. Some [40, 60]) (Some ''layout'')
     [(''a'', panelOf ''a'' (Some 60) 0 100), (''b'', panelOf ''b'' (Some 50) 0 100)] []
     = Inr (Some [40, 60])"
proof -
  let ?m = "[(''a'', panelOf ''a'' (Some 60) 0 100), (''b'', panelOf ''b'' (Some 50) 0 100)]"
  have run: "length ([] :: real list) \<noteq> size_map ?m"
    by (simp add: size_map_def)
  have named: "''layout'' \<noteq> []"
    by simp
  have over: "totalDefault exact (registrationOrder ?m) > 100"
    by (simp add: registrationOrder_def total_sixty_fifty exact_ops)
  have "initialSizes exact registrationOrder (\<lambda>a ps. Some [40, 60]) (Some ''layout'') ?m []
      = Inr (Some [40, 60])"
    by (rule persisted_layout_adopted [OF run refl named refl])
  with run named over show ?thesis by blast
qed

subsection \<open>Saving the layout\<close>

text \<open>
  C10. The effect that saves the layout makes no call of \<^verbatim>\<open>savePanelGroupLayout\<close> exactly
  when \<^verbatim>\<open>autoSaveId\<close> is absent or empty, or the sizes are empty, or their number differs
  from the number of panels. So a layout is saved only for a configured group whose sizes
  are settled.
\<close>

theorem save_only_when_settled:
  "(saveEffect toArray saveId panelMap xs = None) =
     (saveId = None \<or> saveId = Some [] \<or> xs = [] \<or> length xs \<noteq> size_map panelMap)"
  by (auto simp: saveEffect_def split: option.splits)

theorem save_only_when_settled_witness:
  "saveEffect registrationOrder (Some ''layout'')
     [(''a'', panelOf ''a'' None 0 100), (''b'', panelOf ''b'' None 0 100)] [50] = None \<and>
   saveEffect registrationOrder (Some ''layout'')
     [(''a'', panelOf ''a'' None 0 100), (''b'', panelOf ''b'' None 0 100)] [] = None \<and>
   saveEffect registrationOrder (Some ''layout'')
     [(''a'', panelOf ''a'' None 0 100), (''b'', panelOf ''b'' None 0 100)] [70, 30] \<noteq> None"
proof -
  let ?m = "[(''a'', panelOf ''a'' None 0 100), (''b'', panelOf ''b'' None 0 100)]"
  have partial: "saveEffect registrationOrder (Some ''layout'') ?m [50] = None"
    using save_only_when_settled [of registrationOrder "Some ''layout''" ?m "[50]"]
    by (auto simp: size_map_def)
  have empty: "saveEffect registrationOrder (Some ''layout'') ?m [] = None"
    using save_only_when_settled [of registrationOrder "Some ''layout''" ?m "[]"]
    by auto
  have settled: "saveEffect registrationOrder (Some ''layout'') ?m [70, 30] \<noteq> None"
    using save_only_when_settled [of registrationOrder "Some ''layout''" ?m "[70, 30]"]
    by (auto simp: size_map_def)
  from partial empty settled show ?thesis by blast
qed

subsection \<open>Registering and unregistering panels\<close>

lemma has_set_entry: "has (set_entry m k v) k"
  by (induction m) (auto simp: has_def set_entry_def)

lemma not_has_delete_entry: "\<not> has (delete_entry m k) k"
  by (induction m) (auto simp: has_def delete_entry_def)

lemma delete_entry_absent: "\<not> has m k \<Longrightarrow> delete_entry m k = m"
  by (induction m) (auto simp: has_def delete_entry_def split: if_splits)

lemma delete_entry_one_less:
  "distinct (map fst m) \<Longrightarrow> has m k \<Longrightarrow> Suc (size_map (delete_entry m k)) = size_map m"
proof (induction m)
  case Nil
  then show ?case
    by (simp add: has_def)
next
  case (Cons e m)
  show ?case
  proof (cases "fst e = k")
    case True
    with Cons.prems(1) have "\<not> has m k"
      by (auto simp: has_def dest: map_of_SomeD intro: rev_image_eqI)
    then have "delete_entry m k = m"
      by (rule delete_entry_absent)
    then have "delete_entry (e # m) k = m"
      using True by (simp add: delete_entry_def case_prod_beta)
    then show ?thesis
      by (simp add: size_map_def)
  next
    case False
    with Cons.prems(2) have "has m k"
      by (cases e) (simp add: has_def)
    with Cons.IH Cons.prems(1) have "Suc (size_map (delete_entry m k)) = size_map m"
      by simp
    moreover have "delete_entry (e # m) k = e # delete_entry m k"
      using False by (simp add: delete_entry_def case_prod_beta)
    ultimately show ?thesis
      by (simp add: size_map_def)
  qed
qed

lemma panelsOf_registerPanel:
  "panelsOf (registerPanel panelId panel g) =
     (if has (panelsOf g) panelId then panelsOf g else set_entry (panelsOf g) panelId panel)"
  by (simp add: registerPanel_def setPanels_def panelsOf_def new_Map_def)

lemma panelsOf_unregisterPanel:
  "panelsOf (unregisterPanel panelId g) =
     (if has (panelsOf g) panelId then delete_entry (panelsOf g) panelId else panelsOf g)"
  by (simp add: unregisterPanel_def setPanels_def panelsOf_def new_Map_def)

lemma sizes_unregisterPanel:
  "sizes (unregisterPanel panelId g) = sizes g \<and> sizesOf (unregisterPanel panelId g) = sizesOf g"
  by (simp add: unregisterPanel_def setPanels_def sizesOf_def new_Map_def)

lemma panels_unregisterPanel:
  "has (panelsOf g) panelId \<Longrightarrow> panels (unregisterPanel panelId g) = fresh (mem g)"
  by (simp add: unregisterPanel_def setPanels_def panelsOf_def new_Map_def)

lemma old_map_unregisterPanel:
  "panels g < fresh (mem g) \<Longrightarrow>
     mapCells (mem (unregisterPanel panelId g)) (panels g) = panelsOf g"
  by (simp add: unregisterPanel_def setPanels_def panelsOf_def new_Map_def)

text \<open>
  Registering and unregistering keep the identifiers of the map distinct and the
  reference of the map among the allocated ones, as they are in a group without panels.
\<close>

lemma has_iff_key: "has m k = (k \<in> fst ` set m)"
  by (simp add: has_def map_of_eq_None_iff)

lemma distinct_set_entry:
  "distinct (map fst m) \<Longrightarrow> \<not> has m k \<Longrightarrow> distinct (map fst (set_entry m k v))"
  by (simp add: set_entry_def has_iff_key)

lemma distinct_delete_entry:
  "distinct (map fst m) \<Longrightarrow> distinct (map fst (delete_entry m k))"
  by (simp add: delete_entry_def distinct_map_filter)

lemma registerPanel_keeps_map:
  assumes "distinct (map fst (panelsOf g))" and "panels g < fresh (mem g)"
  shows "distinct (map fst (panelsOf (registerPanel panelId panel g))) \<and>
     panels (registerPanel panelId panel g) < fresh (mem (registerPanel panelId panel g))"
proof (cases "has (panelsOf g) panelId")
  case True
  with assms show ?thesis
    by (simp add: registerPanel_def setPanels_def panelsOf_def)
next
  case False
  with assms(1) have "distinct (map fst (panelsOf (registerPanel panelId panel g)))"
    by (simp add: panelsOf_registerPanel distinct_set_entry)
  moreover from False
  have "panels (registerPanel panelId panel g) < fresh (mem (registerPanel panelId panel g))"
    by (simp add: registerPanel_def setPanels_def panelsOf_def new_Map_def)
  ultimately show ?thesis
    by blast
qed

lemma unregisterPanel_keeps_map:
  assumes "distinct (map fst (panelsOf g))" and "panels g < fresh (mem g)"
  shows "distinct (map fst (panelsOf (unregisterPanel panelId g))) \<and>
     panels (unregisterPanel panelId g) < fresh (mem (unregisterPanel panelId g))"
proof (cases "has (panelsOf g) panelId")
  case True
  with assms(1) have "distinct (map fst (panelsOf (unregisterPanel panelId g)))"
    by (simp add: panelsOf_unregisterPanel distinct_delete_entry)
  moreover from True
  have "panels (unregisterPanel panelId g) < fresh (mem (unregisterPanel panelId g))"
    by (simp add: unregisterPanel_def setPanels_def panelsOf_def new_Map_def)
  ultimately show ?thesis
    by blast
next
  case False
  with assms show ?thesis
    by (simp add: unregisterPanel_def setPanels_def panelsOf_def)
qed

text \<open>
  C7. Registering a panel under an identifier that the map of the panels already holds
  changes nothing: the group is the same, and so is the reference of its map, which is
  what the layout effect of the initial sizes depends on.
\<close>

theorem register_existing_is_noop:
  assumes "has (panelsOf g) panelId"
  shows "registerPanel panelId panel g = g \<and>
     panels (registerPanel panelId panel g) = panels g"
  using assms by (simp add: registerPanel_def setPanels_def panelsOf_def)

theorem register_existing_is_noop_witness:
  "has (panelsOf (groupOf [(''a'', panelOf ''a'' None 0 100)] [100])) ''a'' \<and>
   registerPanel ''a'' (panelOf ''a'' (Some 40) 10 90)
      (groupOf [(''a'', panelOf ''a'' None 0 100)] [100])
     = groupOf [(''a'', panelOf ''a'' None 0 100)] [100] \<and>
   panels (registerPanel ''a'' (panelOf ''a'' (Some 40) 10 90)
      (groupOf [(''a'', panelOf ''a'' None 0 100)] [100]))
     = panels (groupOf [(''a'', panelOf ''a'' None 0 100)] [100])"
proof -
  have present: "has (panelsOf (groupOf [(''a'', panelOf ''a'' None 0 100)] [100])) ''a''"
    by (simp add: has_def panelsOf_def groupOf_def)
  show ?thesis
    by (rule conjI [OF present register_existing_is_noop [OF present]])
qed

text \<open>Hence registering twice is registering once, whatever the second panel is.\<close>

lemma registerPanel_idempotent:
  "registerPanel panelId panel' (registerPanel panelId panel g) = registerPanel panelId panel g"
proof -
  have "has (panelsOf (registerPanel panelId panel g)) panelId"
    by (simp add: panelsOf_registerPanel has_set_entry)
  then show ?thesis
    by (simp add: registerPanel_def [of panelId panel'] setPanels_def panelsOf_def)
qed

text \<open>
  C8. Unregistering a panel does not remove the entry of the panel from the sizes. A group
  of three panels has the sizes 20, 30 and 50; after the third panel is unregistered the
  sizes are still 20, 30 and 50. The layout effect that runs next does not remove the
  entry either: it computes all sizes again, here from the defaults, 50 and 50.
\<close>

theorem unregister_keeps_sizes_counterexample:
  "has (panelsOf (groupOf
      [(''a'', panelOf ''a'' None 0 100), (''b'', panelOf ''b'' None 0 100),
       (''c'', panelOf ''c'' None 0 100)] [20, 30, 50])) ''c'' \<and>
   sizesOf (unregisterPanel ''c'' (groupOf
      [(''a'', panelOf ''a'' None 0 100), (''b'', panelOf ''b'' None 0 100),
       (''c'', panelOf ''c'' None 0 100)] [20, 30, 50])) = [20, 30, 50] \<and>
   map_sum id sizesOf
     (initialSizesEffect exact registrationOrder emptyStorage (unregisterPanel ''c'' (groupOf
        [(''a'', panelOf ''a'' None 0 100), (''b'', panelOf ''b'' None 0 100),
         (''c'', panelOf ''c'' None 0 100)] [20, 30, 50]))) = Inr [50, 50]"
  by (simp add: has_def panelsOf_def sizesOf_def groupOf_def unregisterPanel_def setPanels_def
        new_Map_def new_Array_def delete_entry_def initialSizesEffect_def initialSizes_def
        defaultSizes_def registrationOrder_def size_map_def panelOf_def commit_def exact_def)

text \<open>
  C8, as amended. Unregistering an identifier that the group holds removes the panel from
  the map of the panels and leaves the sizes as they are. The state \<open>panels\<close> becomes a
  new map, at a reference that was not in use, which holds the other entries in their
  order, one entry less; the map of the state before is left as it was. The state
  \<open>sizes\<close> and every array are untouched. The identifiers of a map are distinct, and the
  reference of the map of a group is one that has been allocated.
\<close>

theorem unregister_removes_panel_only:
  assumes "has (panelsOf g) panelId"
    and "distinct (map fst (panelsOf g))"
    and "panels g < fresh (mem g)"
  shows "panels (unregisterPanel panelId g) \<noteq> panels g \<and>
     mapCells (mem (unregisterPanel panelId g)) (panels g) = panelsOf g \<and>
     panelsOf (unregisterPanel panelId g) = delete_entry (panelsOf g) panelId \<and>
     \<not> has (panelsOf (unregisterPanel panelId g)) panelId \<and>
     Suc (size_map (panelsOf (unregisterPanel panelId g))) = size_map (panelsOf g) \<and>
     sizes (unregisterPanel panelId g) = sizes g \<and>
     sizesOf (unregisterPanel panelId g) = sizesOf g \<and>
     arrayCells (mem (unregisterPanel panelId g)) = arrayCells (mem g)"
proof -
  have new: "panels (unregisterPanel panelId g) \<noteq> panels g"
    using assms(1,3) by (simp add: panels_unregisterPanel)
  have old: "mapCells (mem (unregisterPanel panelId g)) (panels g) = panelsOf g"
    using assms(3) by (rule old_map_unregisterPanel)
  have rest: "panelsOf (unregisterPanel panelId g) = delete_entry (panelsOf g) panelId"
    using assms(1) by (simp add: panelsOf_unregisterPanel)
  have gone: "\<not> has (panelsOf (unregisterPanel panelId g)) panelId"
    by (simp add: rest not_has_delete_entry)
  have less: "Suc (size_map (panelsOf (unregisterPanel panelId g))) = size_map (panelsOf g)"
    using assms(1,2) by (simp add: rest delete_entry_one_less)
  have arrays: "arrayCells (mem (unregisterPanel panelId g)) = arrayCells (mem g)"
    by (simp add: unregisterPanel_def setPanels_def new_Map_def)
  from new old rest gone less arrays sizes_unregisterPanel [of panelId g] show ?thesis
    by blast
qed

theorem unregister_removes_panel_only_witness:
  "has (panelsOf (groupOf
      [(''a'', panelOf ''a'' None 0 100), (''b'', panelOf ''b'' None 0 100)] [50, 50])) ''b'' \<and>
   distinct (map fst (panelsOf (groupOf
      [(''a'', panelOf ''a'' None 0 100), (''b'', panelOf ''b'' None 0 100)] [50, 50]))) \<and>
   panels (groupOf
      [(''a'', panelOf ''a'' None 0 100), (''b'', panelOf ''b'' None 0 100)] [50, 50])
     < fresh (mem (groupOf
      [(''a'', panelOf ''a'' None 0 100), (''b'', panelOf ''b'' None 0 100)] [50, 50])) \<and>
   panels (unregisterPanel ''b'' (groupOf
      [(''a'', panelOf ''a'' None 0 100), (''b'', panelOf ''b'' None 0 100)] [50, 50]))
     \<noteq> panels (groupOf
      [(''a'', panelOf ''a'' None 0 100), (''b'', panelOf ''b'' None 0 100)] [50, 50]) \<and>
   panelsOf (unregisterPanel ''b'' (groupOf
      [(''a'', panelOf ''a'' None 0 100), (''b'', panelOf ''b'' None 0 100)] [50, 50]))
     = [(''a'', panelOf ''a'' None 0 100)] \<and>
   sizesOf (unregisterPanel ''b'' (groupOf
      [(''a'', panelOf ''a'' None 0 100), (''b'', panelOf ''b'' None 0 100)] [50, 50]))
     = [50, 50]"
proof -
  let ?g = "groupOf [(''a'', panelOf ''a'' None 0 100), (''b'', panelOf ''b'' None 0 100)] [50, 50]"
  have present: "has (panelsOf ?g) ''b''"
    by (simp add: has_def panelsOf_def groupOf_def)
  have keys: "distinct (map fst (panelsOf ?g))"
    by (simp add: panelsOf_def groupOf_def)
  have allocated: "panels ?g < fresh (mem ?g)"
    by (simp add: groupOf_def)
  have before: "delete_entry (panelsOf ?g) ''b'' = [(''a'', panelOf ''a'' None 0 100)]"
    and sized: "sizesOf ?g = [50, 50]"
    by (simp_all add: delete_entry_def panelsOf_def sizesOf_def groupOf_def)
  note after = unregister_removes_panel_only [OF present keys allocated]
  from after have new: "panels (unregisterPanel ''b'' ?g) \<noteq> panels ?g"
    by blast
  from after before sized
  have "panelsOf (unregisterPanel ''b'' ?g) = [(''a'', panelOf ''a'' None 0 100)]"
    and "sizesOf (unregisterPanel ''b'' ?g) = [50, 50]"
    by simp_all
  with present keys allocated new show ?thesis by blast
qed

subsection \<open>The drag session\<close>

text \<open>
  C9. A drag that starts on a handle while another handle is dragging is not ignored:
  with \<open>h1\<close> active and the offset 5, a start on \<open>h2\<close> makes \<open>h2\<close> the active
  handle and captures the offset again, here 9.
\<close>

theorem drag_start_ignored_counterexample:
  "activeHandleId ((groupOf [] [])\<lparr>activeHandleId := Some ''h1'', dragOffset := 5\<rparr>)
     = Some ''h1'' \<and>
   ''h2'' \<noteq> ''h1'' \<and>
   activeHandleId (startDragging (grabbedAt 9) ''h2'' ()
      ((groupOf [] [])\<lparr>activeHandleId := Some ''h1'', dragOffset := 5\<rparr>)) = Some ''h2'' \<and>
   dragOffset ((groupOf [] [])\<lparr>activeHandleId := Some ''h1'', dragOffset := 5\<rparr>) = 5 \<and>
   dragOffset (startDragging (grabbedAt 9) ''h2'' ()
      ((groupOf [] [])\<lparr>activeHandleId := Some ''h1'', dragOffset := 5\<rparr>)) = 9"
  by (simp add: startDragging_def groupOf_def grabbedAt_def)

text \<open>
  C9, as amended. While a handle \<open>h1\<close> is dragging, a start on another handle \<open>h2\<close>
  takes the session over: \<open>h2\<close> is the active handle and the offset is the one captured
  for \<open>h2\<close>. The panels, the sizes and the heap are untouched, and nothing is thrown:
  the result is a group.
\<close>

theorem drag_start_takes_over:
  assumes "activeHandleId g = Some h1" and "h2 \<noteq> h1"
  shows "activeHandleId (startDragging getDragOffset h2 event g) = Some h2 \<and>
     dragOffset (startDragging getDragOffset h2 event g) = getDragOffset event h2 (direction g) \<and>
     panels (startDragging getDragOffset h2 event g) = panels g \<and>
     sizes (startDragging getDragOffset h2 event g) = sizes g \<and>
     mem (startDragging getDragOffset h2 event g) = mem g"
  by (simp add: startDragging_def)

theorem drag_start_takes_over_witness:
  "activeHandleId ((groupOf [] [])\<lparr>activeHandleId := Some ''h1'', dragOffset := 5\<rparr>)
     = Some ''h1'' \<and>
   ''h2'' \<noteq> ''h1'' \<and>
   activeHandleId (startDragging (grabbedAt 9) ''h2'' ()
      ((groupOf [] [])\<lparr>activeHandleId := Some ''h1'', dragOffset := 5\<rparr>)) = Some ''h2''"
proof -
  let ?g = "(groupOf [] [])\<lparr>activeHandleId := Some ''h1'', dragOffset := 5\<rparr>"
  have active: "activeHandleId ?g = Some ''h1''"
    by simp
  have other: "''h2'' \<noteq> ''h1''"
    by simp
  from drag_start_takes_over [OF active other, of "grabbedAt 9" "()"]
  have "activeHandleId (startDragging (grabbedAt 9) ''h2'' () ?g) = Some ''h2''"
    by blast
  with active other show ?thesis by blast
qed

subsection \<open>The resize handler\<close>

text \<open>
  C5. When the movement that \<^verbatim>\<open>getMovement\<close> computes for a resize event is 0, the handler
  makes no call of \<^verbatim>\<open>setSizes\<close> and leaves the heap as it is, whatever \<^verbatim>\<open>adjustByDelta\<close> is:
  it has returned before. The group after the event is the group before it. In the witness
  \<open>adjust\<close> would return a new array, had it been called.
\<close>

theorem zero_movement_is_noop:
  assumes "getMovement event (groupId g) handleId (direction g) (dragOffset g) = 0"
  shows "resizeHandler toArray getIds getMovement getRect adjust handleId event g = (None, mem g) \<and>
     commit (resizeHandler toArray getIds getMovement getRect adjust handleId event g) g = g"
proof -
  have "resizeHandler toArray getIds getMovement getRect adjust handleId event g = (None, mem g)"
    using assms
    by (simp add: resizeHandler_def Let_def split: prod.splits option.splits)
  then show ?thesis
    by (simp add: commit_def)
qed

theorem zero_movement_is_noop_witness:
  "resizeHandler registrationOrder (\<lambda>groupId handleId ps. (Some ''a'', Some ''b''))
      (\<lambda>event groupId handleId d offset. 0) (\<lambda>groupId. (800, 600))
      (\<lambda>h panelsRef idBefore idAfter delta prevSizes. new_Array [60, 40] h) ''handle'' ()
      (groupOf [(''a'', panelOf ''a'' None 0 100), (''b'', panelOf ''b'' None 0 100)] [50, 50])
     = (None,
        mem (groupOf [(''a'', panelOf ''a'' None 0 100), (''b'', panelOf ''b'' None 0 100)]
          [50, 50]))"
  using zero_movement_is_noop [of "\<lambda>event groupId handleId d offset. 0" "()"
      "groupOf [(''a'', panelOf ''a'' None 0 100), (''b'', panelOf ''b'' None 0 100)] [50, 50]"
      "''handle''" registrationOrder "\<lambda>groupId handleId ps. (Some ''a'', Some ''b'')"
      "\<lambda>groupId. (800, 600)"
      "\<lambda>h panelsRef idBefore idAfter delta prevSizes. new_Array [60, 40] h"]
  by simp

text \<open>
  C4. When the effective delta resolved for the delta of a resize event is zero,
  \<^verbatim>\<open>adjustByDelta\<close> returns the reference of the previous sizes and allocates nothing, and
  the handler, which compares the two references, makes no call of \<^verbatim>\<open>setSizes\<close>: the group
  after the event is the group before it. In the witness the panel before the handle is
  at its minimum of 30 and the movement of -80 pixels in 800 asks for ten percent less.
\<close>

theorem zero_effective_delta_keeps_identity:
  assumes "getIds (groupId g) handleId (toArray (panelsOf g)) = (Some idBefore, Some idAfter)"
    and "movement = getMovement event (groupId g) handleId (direction g) (dragOffset g)"
    and "extent = (if direction g = horizontal then fst (getRect (groupId g))
                   else snd (getRect (groupId g)))"
    and "fst (resolve (panelsOf g) idBefore idAfter (percent movement extent) (sizesOf g)) = 0"
  shows "adjustByDelta resolve (mem g) (panels g) idBefore idAfter (percent movement extent)
         (sizes g) = (sizes g, mem g) \<and>
     resizeHandler toArray getIds getMovement getRect (adjustByDelta resolve) handleId event g
       = (None, mem g) \<and>
     commit (resizeHandler toArray getIds getMovement getRect (adjustByDelta resolve)
        handleId event g) g = g"
proof -
  have same: "adjustByDelta resolve (mem g) (panels g) idBefore idAfter
      (percent movement extent) (sizes g) = (sizes g, mem g)"
    using assms(4)
    by (cases "resolve (panelsOf g) idBefore idAfter (percent movement extent) (sizesOf g)")
       (simp add: adjustByDelta_def panelsOf_def sizesOf_def)
  have handler: "resizeHandler toArray getIds getMovement getRect (adjustByDelta resolve)
      handleId event g = (None, mem g)"
    using assms(1-3) same
    by (simp add: resizeHandler_def panelsOf_def Let_def case_prod_beta)
  from same handler show ?thesis
    by (simp add: commit_def)
qed

theorem zero_effective_delta_keeps_identity_witness:
  "fst ((\<lambda>m idBefore idAfter delta xs.
          case delta of
            Finite x \<Rightarrow>
              (max x (minSize (snd (m ! 0)) - xs ! 0),
               [xs ! 0 + max x (minSize (snd (m ! 0)) - xs ! 0),
                xs ! 1 - max x (minSize (snd (m ! 0)) - xs ! 0)])
          | PosInfinity \<Rightarrow> (0, xs)
          | NegInfinity \<Rightarrow> (0, xs))
        [(''a'', panelOf ''a'' None 30 100), (''b'', panelOf ''b'' None 20 100)]
        ''a'' ''b'' (percent (- 80) 800) [30, 70]) = 0 \<and>
   resizeHandler registrationOrder (\<lambda>groupId handleId ps. (Some ''a'', Some ''b''))
      (\<lambda>event groupId handleId d offset. - 80) (\<lambda>groupId. (800, 600))
      (adjustByDelta (\<lambda>m idBefore idAfter delta xs.
          case delta of
            Finite x \<Rightarrow>
              (max x (minSize (snd (m ! 0)) - xs ! 0),
               [xs ! 0 + max x (minSize (snd (m ! 0)) - xs ! 0),
                xs ! 1 - max x (minSize (snd (m ! 0)) - xs ! 0)])
          | PosInfinity \<Rightarrow> (0, xs)
          | NegInfinity \<Rightarrow> (0, xs))) ''handle'' ()
      (groupOf [(''a'', panelOf ''a'' None 30 100), (''b'', panelOf ''b'' None 20 100)] [30, 70])
     = (None,
        mem (groupOf [(''a'', panelOf ''a'' None 30 100), (''b'', panelOf ''b'' None 20 100)]
          [30, 70]))"
proof -
  let ?resolve = "\<lambda>(m :: PanelDataMap) (idBefore :: string) (idAfter :: string) delta (xs :: real list).
          case delta of
            Finite x \<Rightarrow>
              (max x (minSize (snd (m ! 0)) - xs ! 0),
               [xs ! 0 + max x (minSize (snd (m ! 0)) - xs ! 0),
                xs ! 1 - max x (minSize (snd (m ! 0)) - xs ! 0)])
          | PosInfinity \<Rightarrow> (0, xs)
          | NegInfinity \<Rightarrow> (0, xs)"
  let ?g = "groupOf [(''a'', panelOf ''a'' None 30 100), (''b'', panelOf ''b'' None 20 100)] [30, 70]"
  have zero: "fst (?resolve [(''a'', panelOf ''a'' None 30 100), (''b'', panelOf ''b'' None 20 100)]
        ''a'' ''b'' (percent (- 80) 800) [30, 70]) = 0"
    by (simp add: percent_def panelOf_def)
  have zero': "fst (?resolve (panelsOf ?g) ''a'' ''b''
      (percent (- 80) (if direction ?g = horizontal then fst (800, 600) else snd (800 :: real, 600 :: real)))
      (sizesOf ?g)) = 0"
    by (simp add: percent_def panelOf_def panelsOf_def sizesOf_def groupOf_def)
  from zero_effective_delta_keeps_identity [where g = ?g and resolve = ?resolve
      and getIds = "\<lambda>groupId handleId ps. (Some ''a'', Some ''b'')"
      and getMovement = "\<lambda>event groupId handleId d offset. - 80"
      and getRect = "\<lambda>groupId. (800, 600)" and toArray = registrationOrder
      and handleId = "''handle''" and event = "()", OF refl refl refl zero']
  have "resizeHandler registrationOrder (\<lambda>groupId handleId ps. (Some ''a'', Some ''b''))
      (\<lambda>event groupId handleId d offset. - 80) (\<lambda>groupId. (800, 600))
      (adjustByDelta ?resolve) ''handle'' () ?g = (None, mem ?g)"
    by blast
  with zero show ?thesis by blast
qed

end
